theory Spec2Isabelle
  imports Complex_Main "HOL-Library.Sublist"
begin

unbundle bit_operations_syntax

section \<open>Conventions of the embedding\<close>

text \<open>
  The development embeds the premium card renderer (\<^verbatim>\<open>PremiumCard.jsx\<close>) and its
  particle system (\<^verbatim>\<open>ParticleSystem\<close>, the file with \<^verbatim>\<open>PARTICLE_PRESETS\<close>).
  \<^item> A JavaScript number that holds a quantity (time, position, alpha, scale) is a
    \<^typ>\<open>real\<close>: arithmetic is exact, the rounding of IEEE doubles is not modelled.
    Numbers that hold counts or packed colours are \<^typ>\<open>int\<close>.
  \<^item> An object literal used as a table (\<^verbatim>\<open>CARD_SIZES\<close>, \<^verbatim>\<open>HOUSE_COLORS\<close>,
    \<^verbatim>\<open>HOUSE_PARTICLES\<close>, \<^verbatim>\<open>PARTICLE_PRESETS\<close>, \<^verbatim>\<open>tokenColors\<close>) is an
    association list in the order of the literal, read with \<^const>\<open>map_of\<close>: the lookup
    sees the table's own keys only, a missing key is \<^verbatim>\<open>undefined\<close>, that is
    \<^const>\<open>None\<close>.
  \<^item> \<^verbatim>\<open>a || b\<close> on a number takes \<^verbatim>\<open>b\<close> when \<^verbatim>\<open>a\<close> is \<^verbatim>\<open>0\<close> or
    \<^verbatim>\<open>undefined\<close>.
  \<^item> \<^verbatim>\<open>Math.random()\<close> is a stream of reals that the functions consume in the
    order of the source's calls.
\<close>

subsection \<open>Truthiness of numbers\<close>

definition js_or :: "real \<Rightarrow> real \<Rightarrow> real" where
  "js_or a b = (if a = 0 then b else a)"

definition js_or_int :: "int \<Rightarrow> int \<Rightarrow> int" where
  "js_or_int a b = (if a = 0 then b else a)"

definition js_or_undef :: "real option \<Rightarrow> real \<Rightarrow> real" where
  "js_or_undef a b = (case a of None \<Rightarrow> b | Some v \<Rightarrow> js_or v b)"

section \<open>Card sizes and house colours (PremiumCard.jsx)\<close>











section \<open>Particle presets (ParticleSystem)\<close>

record range =
  rmin :: real
  rmax :: real

record alpha_range =
  a_start :: real
  a_end :: real

text \<open>
  A preset. \<^verbatim>\<open>colorEnd\<close> is the one key that a preset may leave out. The key
  \<^verbatim>\<open>size\<close> is named \<open>psize\<close> here.
\<close>

record preset =
  count :: int
  lifetime :: range
  speed :: range
  psize :: range
  color :: int
  colorEnd :: "int option"
  alpha :: alpha_range
  gravity :: real
  spread :: real
  emitRate :: real

definition sparkle :: preset where
  "sparkle = \<lparr>count = 15, lifetime = \<lparr>rmin = 0.5, rmax = 1.5\<rparr>,
     speed = \<lparr>rmin = 20, rmax = 50\<rparr>, psize = \<lparr>rmin = 1, rmax = 3\<rparr>,
     color = 0xffd700, colorEnd = None, alpha = \<lparr>a_start = 1, a_end = 0\<rparr>,
     gravity = -10, spread = pi * 2, emitRate = 5\<rparr>"








section \<open>Utility functions\<close>

text \<open>
  \<^verbatim>\<open>Math.random()\<close>: the stream of its future results. A function that calls it
  \<open>n\<close> times reads the first \<open>n\<close> elements and hands on the rest.
\<close>

type_synonym rng = "nat \<Rightarrow> real"

definition rng_drop :: "nat \<Rightarrow> rng \<Rightarrow> rng" where
  "rng_drop n r = (\<lambda>i. r (i + n))"

text \<open>\<^verbatim>\<open>randomRange(min, max)\<close>, given the result \<open>u\<close> of its call of \<^verbatim>\<open>Math.random()\<close>.\<close>

definition randomRange :: "real \<Rightarrow> real \<Rightarrow> real \<Rightarrow> real" where
  "randomRange u lo hi = u * (hi - lo) + lo"

text \<open>\<^verbatim>\<open>Math.round\<close>: the nearest integer, a tie goes up.\<close>

definition Math_round :: "real \<Rightarrow> int" where
  "Math_round v = \<lfloor>v + 1 / 2\<rfloor>"

text \<open>
  The bitwise operators of JavaScript work on the 32-bit two's complement value of their
  operands. \<open>to_int32\<close> is that conversion on an integer.
\<close>

definition to_int32 :: "int \<Rightarrow> int" where
  "to_int32 v = (v + 2 ^ 31) mod 2 ^ 32 - 2 ^ 31"

text \<open>
  \<^verbatim>\<open>(c >> 16) & 0xff\<close>, \<^verbatim>\<open>(c >> 8) & 0xff\<close>, \<^verbatim>\<open>c & 0xff\<close>. The mask keeps bits
  that the conversion to 32 bits and the sign extension of \<^verbatim>\<open>>>\<close> leave alone, so the
  operators are taken on \<^typ>\<open>int\<close>.
\<close>

definition red :: "int \<Rightarrow> int" where
  "red c = drop_bit 16 c AND 0xff"

definition green :: "int \<Rightarrow> int" where
  "green c = drop_bit 8 c AND 0xff"

definition blue :: "int \<Rightarrow> int" where
  "blue c = c AND 0xff"

text \<open>\<^verbatim>\<open>(r << 16) | (g << 8) | b\<close>\<close>

definition pack_rgb :: "int \<Rightarrow> int \<Rightarrow> int \<Rightarrow> int" where
  "pack_rgb r g b = to_int32 ((push_bit 16 r OR push_bit 8 g) OR b)"

definition lerpColor :: "int \<Rightarrow> int \<Rightarrow> real \<Rightarrow> int" where
  "lerpColor color1 color2 ratio =
    (let r1 = red color1; g1 = green color1; b1 = blue color1;
         r2 = red color2; g2 = green color2; b2 = blue color2;
         r = Math_round (real_of_int r1 + real_of_int (r2 - r1) * ratio);
         g = Math_round (real_of_int g1 + real_of_int (g2 - g1) * ratio);
         b = Math_round (real_of_int b1 + real_of_int (b2 - b1) * ratio)
     in pack_rgb r g b)"

section \<open>Particle\<close>

text \<open>
  What \<^verbatim>\<open>updateGraphics\<close> leaves in the particle's \<^verbatim>\<open>Graphics\<close> object: one filled
  circle of the given colour, alpha and radius, positioned at \<open>(g_x, g_y)\<close>.
\<close>

record graphics =
  g_color :: int
  g_alpha :: real
  g_radius :: real
  g_x :: real
  g_y :: real

text \<open>
  The configuration object that the constructor and \<^verbatim>\<open>reset\<close> read. The emitter
  always supplies the keys of \<^verbatim>\<open>getRandomParticleConfig\<close>; \<^verbatim>\<open>alpha\<close> and
  \<^verbatim>\<open>active\<close> are keys that may be absent, \<^verbatim>\<open>colorEnd\<close> is absent when the preset
  has none.
\<close>

record particle_config =
  c_x :: real
  c_y :: real
  c_vx :: real
  c_vy :: real
  c_size :: real
  c_color :: int
  c_colorEnd :: "int option"
  c_alpha :: "real option"
  c_alphaStart :: real
  c_alphaEnd :: real
  c_lifetime :: real
  c_gravity :: real
  c_active :: "bool option"

record particle =
  p_x :: real
  p_y :: real
  p_vx :: real
  p_vy :: real
  p_size :: real
  p_color :: int
  p_colorEnd :: "int option"
  p_alpha :: real
  p_alphaStart :: real
  p_alphaEnd :: real
  p_lifetime :: real
  p_maxLifetime :: real
  p_gravity :: real
  p_active :: bool
  p_graphics :: graphics

definition updateGraphics :: "particle \<Rightarrow> particle" where
  "updateGraphics p =
    p\<lparr>p_graphics := \<lparr>g_color = p_color p, g_alpha = p_alpha p, g_radius = p_size p,
                      g_x = p_x p, g_y = p_y p\<rparr>\<rparr>"

text \<open>\<^verbatim>\<open>new Graphics()\<close>, before anything is drawn.\<close>

definition new_Graphics :: graphics where
  "new_Graphics = \<lparr>g_color = 0, g_alpha = 0, g_radius = 0, g_x = 0, g_y = 0\<rparr>"

text \<open>
  The constructor. It reads every key with \<^verbatim>\<open>||\<close> and sets
  \<^verbatim>\<open>this.active = true\<close>; it does not read \<^verbatim>\<open>config.active\<close>.
\<close>

definition new_Particle :: "particle_config \<Rightarrow> particle" where
  "new_Particle cfg =
    updateGraphics
      \<lparr>p_x = js_or (c_x cfg) 0,
       p_y = js_or (c_y cfg) 0,
       p_vx = js_or (c_vx cfg) 0,
       p_vy = js_or (c_vy cfg) 0,
       p_size = js_or (c_size cfg) 2,
       p_color = js_or_int (c_color cfg) 0xffffff,
       p_colorEnd = c_colorEnd cfg,
       p_alpha = js_or_undef (c_alpha cfg) 1,
       p_alphaStart = js_or (c_alphaStart cfg) 1,
       p_alphaEnd = js_or (c_alphaEnd cfg) 0,
       p_lifetime = js_or (c_lifetime cfg) 1,
       p_maxLifetime = js_or (c_lifetime cfg) 1,
       p_gravity = js_or (c_gravity cfg) 0,
       p_active = True,
       p_graphics = new_Graphics\<rparr>"

text \<open>\<^verbatim>\<open>Particle.update(delta)\<close>\<close>

definition Particle_update :: "real \<Rightarrow> particle \<Rightarrow> particle" where
  "Particle_update delta p =
    (if \<not> p_active p then p
     else
       let p1 = p\<lparr>p_x := p_x p + p_vx p * delta,
                  p_y := p_y p + p_vy p * delta,
                  p_vy := p_vy p + p_gravity p * delta,
                  p_lifetime := p_lifetime p - delta\<rparr>
       in if p_lifetime p1 \<le> 0 then p1\<lparr>p_active := False\<rparr>
          else
            let lifeRatio = p_lifetime p1 / p_maxLifetime p1;
                p2 = p1\<lparr>p_alpha := p_alphaEnd p1 + (p_alphaStart p1 - p_alphaEnd p1) * lifeRatio\<rparr>;
                p3 = (case p_colorEnd p2 of
                        None \<Rightarrow> p2
                      | Some ce \<Rightarrow> p2\<lparr>p_color := lerpColor ce (p_color p2) lifeRatio\<rparr>);
                p4 = p3\<lparr>p_size := p_size p3 * 0.99\<rparr>
            in updateGraphics p4)"

text \<open>\<^verbatim>\<open>Particle.reset(config)\<close>: \<^verbatim>\<open>colorEnd\<close> is not among the fields it writes.\<close>

definition reset :: "particle_config \<Rightarrow> particle \<Rightarrow> particle" where
  "reset cfg p =
    updateGraphics
      (p\<lparr>p_x := js_or (c_x cfg) 0,
         p_y := js_or (c_y cfg) 0,
         p_vx := js_or (c_vx cfg) 0,
         p_vy := js_or (c_vy cfg) 0,
         p_size := js_or (c_size cfg) 2,
         p_color := js_or_int (c_color cfg) 0xffffff,
         p_alpha := js_or (c_alphaStart cfg) 1,
         p_alphaStart := js_or (c_alphaStart cfg) 1,
         p_alphaEnd := js_or (c_alphaEnd cfg) 0,
         p_lifetime := js_or (c_lifetime cfg) 1,
         p_maxLifetime := js_or (c_lifetime cfg) 1,
         p_gravity := js_or (c_gravity cfg) 0,
         p_active := True\<rparr>)"

section \<open>ParticleEmitter\<close>

text \<open>
  The argument of the constructor and of \<^verbatim>\<open>setConfig\<close>: an object with any subset of
  the preset's keys, spread over the current configuration.
\<close>

record preset_override =
  o_count :: "int option"
  o_lifetime :: "range option"
  o_speed :: "range option"
  o_psize :: "range option"
  o_color :: "int option"
  o_colorEnd :: "int option"
  o_alpha :: "alpha_range option"
  o_gravity :: "real option"
  o_spread :: "real option"
  o_emitRate :: "real option"

definition override_of :: "preset \<Rightarrow> preset_override" where
  "override_of c =
    \<lparr>o_count = Some (count c), o_lifetime = Some (lifetime c), o_speed = Some (speed c),
     o_psize = Some (psize c), o_color = Some (color c), o_colorEnd = colorEnd c,
     o_alpha = Some (alpha c), o_gravity = Some (gravity c), o_spread = Some (spread c),
     o_emitRate = Some (emitRate c)\<rparr>"

definition or_else :: "'a option \<Rightarrow> 'a \<Rightarrow> 'a" where
  "or_else v d = (case v of None \<Rightarrow> d | Some a \<Rightarrow> a)"

text \<open>\<^verbatim>\<open>{ ...base, ...config }\<close>\<close>

definition merge_config :: "preset \<Rightarrow> preset_override \<Rightarrow> preset" where
  "merge_config base c =
    \<lparr>count = or_else (o_count c) (count base),
     lifetime = or_else (o_lifetime c) (lifetime base),
     speed = or_else (o_speed c) (speed base),
     psize = or_else (o_psize c) (psize base),
     color = or_else (o_color c) (color base),
     colorEnd = (case o_colorEnd c of None \<Rightarrow> colorEnd base | Some v \<Rightarrow> Some v),
     alpha = or_else (o_alpha c) (alpha base),
     gravity = or_else (o_gravity c) (gravity base),
     spread = or_else (o_spread c) (spread base),
     emitRate = or_else (o_emitRate c) (emitRate base)\<rparr>"

text \<open>
  The emitter. Its display children are the \<^verbatim>\<open>graphics\<close> of the pooled particles, in
  pool order; they are the \<open>p_graphics\<close> fields of \<open>particles\<close>.
\<close>

record emitter =
  config :: preset
  particles :: "particle list"
  emitTimer :: real
  emitPosition :: "real \<times> real"
  bounds :: "real \<times> real"
  active :: bool

text \<open>
  \<^verbatim>\<open>getRandomParticleConfig\<close> calls \<^verbatim>\<open>Math.random()\<close> six times: for the angle, the
  speed, x, y, the size and the lifetime, in this order.
\<close>

definition getRandomParticleConfig :: "rng \<Rightarrow> emitter \<Rightarrow> particle_config \<times> rng" where
  "getRandomParticleConfig r e =
    (let c = config e;
         angle = r 0 * spread c - spread c / 2 - pi / 2;
         speed' = randomRange (r 1) (rmin (speed c)) (rmax (speed c))
     in (\<lparr>c_x = fst (emitPosition e) + randomRange (r 2) (-10) 10,
          c_y = snd (emitPosition e) + randomRange (r 3) (-10) 10,
          c_vx = cos angle * speed',
          c_vy = sin angle * speed',
          c_size = randomRange (r 4) (rmin (psize c)) (rmax (psize c)),
          c_color = color c,
          c_colorEnd = colorEnd c,
          c_alpha = None,
          c_alphaStart = a_start (alpha c),
          c_alphaEnd = a_end (alpha c),
          c_lifetime = randomRange (r 5) (rmin (lifetime c)) (rmax (lifetime c)),
          c_gravity = gravity c,
          c_active = None\<rparr>,
         rng_drop 6 r))"

text \<open>
  \<^verbatim>\<open>initParticlePool\<close>: the loop \<^verbatim>\<open>for (let i = 0; i < this.config.count; i++)\<close>
  runs \<open>nat count\<close> times, none for a count below 1. Each pass builds a particle from
  \<^verbatim>\<open>{ ...this.getRandomParticleConfig(), active: false }\<close> and pushes it.
\<close>

fun initPool_loop :: "nat \<Rightarrow> rng \<Rightarrow> emitter \<Rightarrow> emitter \<times> rng" where
  "initPool_loop 0 r e = (e, r)"
| "initPool_loop (Suc n) r e =
    (let (cfg, r') = getRandomParticleConfig r e;
         particle = new_Particle (cfg\<lparr>c_active := Some False\<rparr>)
     in initPool_loop n r' (e\<lparr>particles := particles e @ [particle]\<rparr>))"

definition initParticlePool :: "rng \<Rightarrow> emitter \<Rightarrow> emitter \<times> rng" where
  "initParticlePool r e = initPool_loop (nat (count (config e))) r e"

text \<open>
  The constructor: \<open>None\<close> is the call without an argument, which takes the default
  \<^verbatim>\<open>PARTICLE_PRESETS.sparkle\<close>. The ticker it starts calls \<^verbatim>\<open>update\<close> once a frame;
  the frames are the calls of \<open>ParticleEmitter_update\<close> below.
\<close>

definition new_ParticleEmitter :: "rng \<Rightarrow> preset_override option \<Rightarrow> emitter \<times> rng" where
  "new_ParticleEmitter r cfg =
    initParticlePool r
      \<lparr>config = merge_config sparkle (or_else cfg (override_of sparkle)),
       particles = [],
       emitTimer = 0,
       emitPosition = (0, 0),
       bounds = (100, 100),
       active = True\<rparr>"







definition setConfig :: "preset_override \<Rightarrow> emitter \<Rightarrow> emitter" where
  "setConfig c e = e\<lparr>config := merge_config (config e) c\<rparr>"

definition start :: "emitter \<Rightarrow> emitter" where
  "start e = e\<lparr>active := True\<rparr>"

definition stop :: "emitter \<Rightarrow> emitter" where
  "stop e = e\<lparr>active := False\<rparr>"







text \<open>The number of particles that are active at the same time.\<close>

definition active_count :: "emitter \<Rightarrow> nat" where
  "active_count e = length (filter p_active (particles e))"

subsection \<open>createHouseEmitter\<close>




section \<open>The card surface (PremiumCard.jsx)\<close>

text \<open>
  The card record of the game state, with the fields that the component reads. A field
  that may be missing is an \<open>option\<close>. \<open>card_tokens\<close> lists the entries of the token
  object in the order of \<^verbatim>\<open>Object.entries\<close>; its keys are distinct.
\<close>

record card =
  card_id :: string
  card_house :: "string option"
  card_type :: string
  card_facedown :: bool
  card_image :: "string option"
  card_power :: "int option"
  card_modifiedPower :: "int option"
  card_armor :: "int option"
  card_tokens :: "(string \<times> int) list option"

text \<open>
  The props. \<open>onMouseOver\<close>, \<open>onMouseOut\<close> and \<open>onClick\<close> say whether the host
  passed the callback; a call of a callback is recorded as a \<open>host_call\<close>.
\<close>

record props =
  card :: "card option"
  cardBack :: string
  size :: "string option"
  halfSize :: bool
  isPremium :: bool
  onMouseOver :: bool
  onMouseOut :: bool
  onClick :: bool

subsection \<open>Decimal strings\<close>



subsection \<open>Display objects\<close>




text \<open>
  \<^item> \<open>ShadowGraphics w h\<close>: the black rounded rectangle of the shadow;
  \<^item> \<open>CardSprite url w h holo\<close>: the sprite of the card's texture, \<open>holo\<close> when the
    holographic filter is attached;
  \<^item> \<open>FrameGraphics glow w h\<close>: the frame, \<open>glow\<close> the colour of the outer stroke if it
    is drawn;
  \<^item> \<open>FallbackGraphics\<close>, \<open>FallbackText\<close>: the grey panel and the glyph of the fallback.
\<close>

subsection \<open>Layer builders\<close>










subsection \<open>loadCard\<close>





subsection \<open>Layers\<close>






subsection \<open>Pointer events\<close>

datatype js_value = VCard card | VString string | VUndefined

text \<open>
  A call of a host callback with its arguments; the argument of \<open>onMouseOver\<close> is an
  object literal, given by its keys and values in the order of the literal.
\<close>

datatype host_call =
    CallMouseOver "(string \<times> js_value) list"
  | CallMouseOut "js_value list"
  | CallClick js_value

record hover_state =
  isHovered :: bool
  mousePos :: "real \<times> real"

definition card_value :: "props \<Rightarrow> js_value" where
  "card_value P = (case card P of None \<Rightarrow> VUndefined | Some c \<Rightarrow> VCard c)"

text \<open>
  \<^verbatim>\<open>handleMouseMove(e)\<close>: \<open>rect\<close> is the bounding rectangle (left, top, width, height)
  of the mounted element, \<open>None\<close> when \<^verbatim>\<open>containerRef.current\<close> is not set.
\<close>

definition handleMouseMove ::
  "(real \<times> real \<times> real \<times> real) option \<Rightarrow> real \<times> real \<Rightarrow> hover_state
    \<Rightarrow> hover_state \<times> host_call list" where
  "handleMouseMove rect client st =
    (case rect of
       None \<Rightarrow> (st, [])
     | Some (rleft, rtop, rwidth, rheight) \<Rightarrow>
        (st\<lparr>mousePos := ((fst client - rleft) / rwidth, (snd client - rtop) / rheight)\<rparr>, []))"

definition handleMouseEnter :: "props \<Rightarrow> hover_state \<Rightarrow> hover_state \<times> host_call list" where
  "handleMouseEnter P st =
    (st\<lparr>isHovered := True\<rparr>,
     if onMouseOver P
     then [CallMouseOver [(''image'', card_value P), (''size'', VString ''normal'')]]
     else [])"

definition handleMouseLeave :: "props \<Rightarrow> hover_state \<Rightarrow> hover_state \<times> host_call list" where
  "handleMouseLeave P st =
    (st\<lparr>isHovered := False, mousePos := (0.5, 0.5)\<rparr>,
     if onMouseOut P then [CallMouseOut []] else [])"

definition handleClick :: "props \<Rightarrow> hover_state \<Rightarrow> hover_state \<times> host_call list" where
  "handleClick P st = (st, if onClick P then [CallClick (card_value P)] else [])"

section \<open>Concrete inputs\<close>

text \<open>A random source that always returns 0, and one frame sequence for the sparkle emitter.\<close>

definition zero_rng :: rng where
  "zero_rng = (\<lambda>i. 0)"


text \<open>
  A particle that was reset with alpha running from 1 to 0 over a lifetime of one second;
  two frames of half a second use the lifetime up.
\<close>

definition example_config :: particle_config where
  "example_config =
    \<lparr>c_x = 0, c_y = 0, c_vx = 0, c_vy = 0, c_size = 2, c_color = 0xffd700,
     c_colorEnd = None, c_alpha = None, c_alphaStart = 1, c_alphaEnd = 0,
     c_lifetime = 1, c_gravity = 0, c_active = None\<rparr>"

definition example_particle :: particle where
  "example_particle = reset example_config (new_Particle example_config)"

definition half_way :: particle where
  "half_way = Particle_update (1 / 2) example_particle"

text \<open>The card of the token scenario, and a surface of size large that shows it.\<close>

definition example_card :: card where
  "example_card =
    \<lparr>card_id = ''troll'', card_house = Some ''brobnar'', card_type = ''creature'',
     card_facedown = False, card_image = Some ''troll'', card_power = Some 6,
     card_modifiedPower = None, card_armor = Some 1,
     card_tokens = Some [(''damage'', 2), (''amber'', 3), (''unknownType'', 5)]\<rparr>"

definition example_props :: props where
  "example_props =
    \<lparr>card = Some example_card, cardBack = ''/img/cardback.png'', size = Some ''large'',
     halfSize = False, isPremium = True, onMouseOver = True, onMouseOut = True,
     onClick = True\<rparr>"


definition example_hover :: hover_state where
  "example_hover = \<lparr>isHovered = False, mousePos = (0.5, 0.5)\<rparr>"

section \<open>The particle pool\<close>

lemma new_Particle_active: "p_active (new_Particle cfg)"
  by (simp add: new_Particle_def updateGraphics_def)

lemma initPool_loop_props:
  "config (fst (initPool_loop n r e)) = config e
   \<and> emitTimer (fst (initPool_loop n r e)) = emitTimer e
   \<and> active (fst (initPool_loop n r e)) = active e
   \<and> length (particles (fst (initPool_loop n r e))) = length (particles e) + n
   \<and> length (filter p_active (particles (fst (initPool_loop n r e))))
       = length (filter p_active (particles e)) + n"
  by (induction n arbitrary: r e) (simp_all add: case_prod_unfold Let_def new_Particle_active)




lemma new_ParticleEmitter_props:
  "config (fst (new_ParticleEmitter r c)) = merge_config sparkle (or_else c (override_of sparkle))"
  "emitTimer (fst (new_ParticleEmitter r c)) = 0"
  "active (fst (new_ParticleEmitter r c))"
  "length (particles (fst (new_ParticleEmitter r c)))
     = nat (count (config (fst (new_ParticleEmitter r c))))"
  "active_count (fst (new_ParticleEmitter r c))
     = nat (count (config (fst (new_ParticleEmitter r c))))"
  by (simp_all add: new_ParticleEmitter_def initParticlePool_def initPool_loop_props
      active_count_def)

lemma merge_override_of: "merge_config sparkle (override_of p) = p"
  by (cases "colorEnd p") (simp_all add: merge_config_def override_of_def or_else_def sparkle_def)

lemma default_config: "config (fst (new_ParticleEmitter r None)) = sparkle"
  by (simp add: new_ParticleEmitter_props or_else_def merge_override_of)


text \<open>
  Claim C4 asks for a pool of \<open>count\<close> inactive particles after the pool is initialised.
  The pool has \<open>count\<close> particles, but the constructor of \<open>Particle\<close> sets every one of
  them active: whatever the configuration, all particles of a new emitter are active, and
  the default emitter (the sparkle preset) starts with 15 active particles.
\<close>

theorem initParticlePool_all_active:
  "active_count (fst (new_ParticleEmitter r c))
     = length (particles (fst (new_ParticleEmitter r c)))
   \<and> length (particles (fst (new_ParticleEmitter zero_rng None))) = 15
   \<and> active_count (fst (new_ParticleEmitter zero_rng None)) = 15"
  by (simp add: new_ParticleEmitter_props(4,5) default_config) (simp add: sparkle_def)

section \<open>Emission cadence\<close>






section \<open>Alpha over a particle's lifetime\<close>

lemma lerp_between:
  fixes s e q :: real
  assumes "0 \<le> q" "q \<le> 1"
  shows "min s e \<le> e + (s - e) * q" "e + (s - e) * q \<le> max s e"
proof -
  have eq: "e + (s - e) * q = (1 - q) * e + q * s" by (simp add: algebra_simps)
  have a: "(1 - q) * min s e \<le> (1 - q) * e" "q * min s e \<le> q * s"
    using assms by (simp_all add: mult_left_mono)
  have "min s e = (1 - q) * min s e + q * min s e" by (simp add: algebra_simps)
  with a show "min s e \<le> e + (s - e) * q" unfolding eq by linarith
  have b: "(1 - q) * e \<le> (1 - q) * max s e" "q * s \<le> q * max s e"
    using assms by (simp_all add: mult_left_mono)
  have "max s e = (1 - q) * max s e + q * max s e" by (simp add: algebra_simps)
  with b show "e + (s - e) * q \<le> max s e" unfolding eq by linarith
qed

lemma Particle_update_alive:
  assumes "p_active p" "0 < p_lifetime p - delta"
  shows "p_active (Particle_update delta p)"
    "p_alpha (Particle_update delta p)
       = p_alphaEnd p + (p_alphaStart p - p_alphaEnd p) * ((p_lifetime p - delta) / p_maxLifetime p)"
  using assms
  by (simp_all add: Particle_update_def Let_def updateGraphics_def split: option.splits)

lemma Particle_update_dead:
  assumes "p_active p" "p_lifetime p - delta \<le> 0"
  shows "\<not> p_active (Particle_update delta p)"
    "p_alpha (Particle_update delta p) = p_alpha p"
  using assms by (simp_all add: Particle_update_def Let_def)

lemma Particle_update_fields:
  "p_active p \<Longrightarrow> 0 \<le> delta \<Longrightarrow> p_lifetime p \<le> p_maxLifetime p \<Longrightarrow>
     p_lifetime (Particle_update delta p) \<le> p_maxLifetime (Particle_update delta p)"
  "p_alphaStart (Particle_update delta p) = p_alphaStart p"
  "p_alphaEnd (Particle_update delta p) = p_alphaEnd p"
  by (simp_all add: Particle_update_def Let_def updateGraphics_def split: option.splits)

lemma reset_fields:
  "p_active (reset cfg p)"
  "p_lifetime (reset cfg p) = p_maxLifetime (reset cfg p)"
  "p_alpha (reset cfg p) = p_alphaStart (reset cfg p)"
  by (simp_all add: reset_def updateGraphics_def)

text \<open>
  Claim C3 says that the alpha of an active particle stays between \<open>alphaStart\<close> and
  \<open>alphaEnd\<close> after every step and is exactly \<open>alphaEnd\<close> at the step in which the
  remaining lifetime reaches 0. The second part fails: \<open>update\<close> returns as soon as the
  lifetime is used up, before it recomputes alpha. The particle of the example has alpha
  1/2 half way through its life; the next half second brings its lifetime to 0 and
  deactivates it, and its alpha is still 1/2, not the end value 0.
\<close>

theorem alpha_at_death_counterexample:
  "p_active half_way
   \<and> p_lifetime (Particle_update (1 / 2) half_way) = 0
   \<and> \<not> p_active (Particle_update (1 / 2) half_way)
   \<and> p_alphaEnd (Particle_update (1 / 2) half_way) = 0
   \<and> p_alpha (Particle_update (1 / 2) half_way) = 1 / 2
   \<and> p_alpha (Particle_update (1 / 2) half_way) \<noteq> p_alphaEnd (Particle_update (1 / 2) half_way)"
  by (simp add: half_way_def example_particle_def example_config_def reset_def new_Particle_def
      Particle_update_def updateGraphics_def js_or_def js_or_int_def js_or_undef_def Let_def)

text \<open>
  Claim C3, amended. Let an active particle whose remaining lifetime does not exceed its
  original lifetime take a step \<open>delta \<ge> 0\<close>. If lifetime remains after the step, the
  particle stays active and its alpha is the interpolation
  \<open>alphaEnd + (alphaStart - alphaEnd) * remaining / original\<close>, which lies between
  \<open>min alphaStart alphaEnd\<close> and \<open>max alphaStart alphaEnd\<close>. If the step uses the lifetime
  up, the particle is deactivated and its alpha keeps the value it had before the step.
  The step keeps \<open>alphaStart\<close> and \<open>alphaEnd\<close> and keeps the remaining lifetime within
  the original one, so the same holds for the next step; \<open>reset\<close> starts a particle with
  the two lifetimes equal and alpha at \<open>alphaStart\<close>.
\<close>

theorem Particle_update_alpha:
  assumes "p_active p" and "0 \<le> delta" and "p_lifetime p \<le> p_maxLifetime p"
  shows "(0 < p_lifetime p - delta \<longrightarrow>
            p_active (Particle_update delta p)
          \<and> p_alpha (Particle_update delta p)
              = p_alphaEnd p + (p_alphaStart p - p_alphaEnd p)
                  * ((p_lifetime p - delta) / p_maxLifetime p)
          \<and> min (p_alphaStart p) (p_alphaEnd p) \<le> p_alpha (Particle_update delta p)
          \<and> p_alpha (Particle_update delta p) \<le> max (p_alphaStart p) (p_alphaEnd p))
       \<and> (p_lifetime p - delta \<le> 0 \<longrightarrow>
            \<not> p_active (Particle_update delta p)
          \<and> p_alpha (Particle_update delta p) = p_alpha p)
       \<and> p_lifetime (Particle_update delta p) \<le> p_maxLifetime (Particle_update delta p)
       \<and> p_alphaStart (Particle_update delta p) = p_alphaStart p
       \<and> p_alphaEnd (Particle_update delta p) = p_alphaEnd p"
proof (intro conjI impI)
  assume live: "0 < p_lifetime p - delta"
  let ?q = "(p_lifetime p - delta) / p_maxLifetime p"
  have m: "0 < p_maxLifetime p" using live assms by linarith
  have q: "0 \<le> ?q" "?q \<le> 1" using live assms m by simp_all
  show "p_active (Particle_update delta p)"
    using assms(1) live by (rule Particle_update_alive(1))
  show al: "p_alpha (Particle_update delta p)
      = p_alphaEnd p + (p_alphaStart p - p_alphaEnd p) * ?q"
    using assms(1) live by (rule Particle_update_alive(2))
  show "min (p_alphaStart p) (p_alphaEnd p) \<le> p_alpha (Particle_update delta p)"
    unfolding al using q by (rule lerp_between(1))
  show "p_alpha (Particle_update delta p) \<le> max (p_alphaStart p) (p_alphaEnd p)"
    unfolding al using q by (rule lerp_between(2))
next
  assume dead: "p_lifetime p - delta \<le> 0"
  show "\<not> p_active (Particle_update delta p)"
    using assms(1) dead by (rule Particle_update_dead(1))
  show "p_alpha (Particle_update delta p) = p_alpha p"
    using assms(1) dead by (rule Particle_update_dead(2))
next
  show "p_lifetime (Particle_update delta p) \<le> p_maxLifetime (Particle_update delta p)"
    using assms by (rule Particle_update_fields(1))
  show "p_alphaStart (Particle_update delta p) = p_alphaStart p"
    by (rule Particle_update_fields(2))
  show "p_alphaEnd (Particle_update delta p) = p_alphaEnd p"
    by (rule Particle_update_fields(3))
qed

theorem Particle_update_alpha_witness:
  "p_active example_particle \<and> p_lifetime example_particle \<le> p_maxLifetime example_particle
   \<and> 0 < p_lifetime example_particle - 1 / 2
   \<and> p_active (Particle_update (1 / 2) example_particle)
   \<and> p_alpha (Particle_update (1 / 2) example_particle) = 1 / 2
   \<and> min (p_alphaStart example_particle) (p_alphaEnd example_particle)
        \<le> p_alpha (Particle_update (1 / 2) example_particle)
   \<and> p_alpha (Particle_update (1 / 2) example_particle)
        \<le> max (p_alphaStart example_particle) (p_alphaEnd example_particle)
   \<and> p_lifetime example_particle - 1 \<le> 0
   \<and> \<not> p_active (Particle_update 1 example_particle)
   \<and> p_alpha (Particle_update 1 example_particle) = p_alpha example_particle"
proof -
  have v: "p_active example_particle" "p_lifetime example_particle = 1"
    "p_maxLifetime example_particle = 1" "p_alphaStart example_particle = 1"
    "p_alphaEnd example_particle = 0"
    by (simp_all add: example_particle_def example_config_def reset_def updateGraphics_def
        js_or_def)
  have h2: "(0::real) \<le> 1 / 2" "(0::real) \<le> 1" by simp_all
  have h3: "p_lifetime example_particle \<le> p_maxLifetime example_particle" by (simp add: v)
  show ?thesis
    using Particle_update_alpha [OF v(1) h2(1) h3] Particle_update_alpha [OF v(1) h2(2) h3]
    by (simp add: v)
qed

section \<open>Colour interpolation\<close>

lemma and_255: "(v::int) AND 255 = take_bit 8 v"
  using take_bit_eq_mask [of 8 v] by (simp add: mask_eq_exp_minus_1)

lemma channel_range:
  "0 \<le> red c \<and> red c < 256" "0 \<le> green c \<and> green c < 256" "0 \<le> blue c \<and> blue c < 256"
  unfolding red_def green_def blue_def and_255
  using take_bit_int_less_exp [of 8 "drop_bit 16 c"] take_bit_int_less_exp [of 8 "drop_bit 8 c"]
    take_bit_int_less_exp [of 8 c]
  by simp_all

lemma channels_join: "(push_bit 16 (red c) OR push_bit 8 (green c)) OR blue c = take_bit 24 c"
  unfolding red_def green_def blue_def and_255
proof (rule bit_eqI)
  fix n
  show "bit ((push_bit 16 (take_bit 8 (drop_bit 16 c)) OR push_bit 8 (take_bit 8 (drop_bit 8 c)))
          OR take_bit 8 c) n = bit (take_bit 24 c) n"
    by (cases "16 \<le> n"; cases "8 \<le> n") (auto simp: bit_simps)
qed

lemma pack_bits_range:
  fixes r g b :: int
  assumes "0 \<le> r" "r < 256" "0 \<le> g" "g < 256" "0 \<le> b" "b < 256"
  shows "0 \<le> (push_bit 16 r OR push_bit 8 g) OR b" "(push_bit 16 r OR push_bit 8 g) OR b < 2 ^ 24"
proof -
  have r: "push_bit 16 r < 2 ^ 24" "0 \<le> push_bit 16 r"
    using assms by (simp_all add: push_bit_eq_mult)
  have g: "push_bit 8 g < 2 ^ 24" "0 \<le> push_bit 8 g"
    using assms by (simp_all add: push_bit_eq_mult)
  have b: "b < 2 ^ 24" using assms by simp
  show "0 \<le> (push_bit 16 r OR push_bit 8 g) OR b" using r g assms by simp
  have lt: "push_bit 16 r OR push_bit 8 g < 2 ^ 24" by (rule OR_upper [OF r(2) r(1) g(1)])
  have ge: "0 \<le> push_bit 16 r OR push_bit 8 g" using r g by simp
  show "(push_bit 16 r OR push_bit 8 g) OR b < 2 ^ 24" by (rule OR_upper [OF ge lt b])
qed

lemma pack_rgb_eq:
  assumes "0 \<le> r" "r < 256" "0 \<le> g" "g < 256" "0 \<le> b" "b < 256"
  shows "pack_rgb r g b = (push_bit 16 r OR push_bit 8 g) OR b"
  using pack_bits_range [OF assms] unfolding pack_rgb_def to_int32_def by simp

lemma channels_of_pack:
  assumes "0 \<le> r" "r < 256" "0 \<le> g" "g < 256" "0 \<le> b" "b < 256"
  shows "red (pack_rgb r g b) = r" "green (pack_rgb r g b) = g" "blue (pack_rgb r g b) = b"
proof -
  have tb: "take_bit 8 r = r" "take_bit 8 g = g" "take_bit 8 b = b"
    using assms by (simp_all add: take_bit_int_eq_self)
  let ?X = "(push_bit 16 (take_bit 8 r) OR push_bit 8 (take_bit 8 g)) OR take_bit 8 b"
  have "take_bit 8 (drop_bit 16 ?X) = take_bit 8 r"
    by (rule bit_eqI) (auto simp: bit_simps)
  moreover have "take_bit 8 (drop_bit 8 ?X) = take_bit 8 g"
    by (rule bit_eqI) (auto simp: bit_simps)
  moreover have "take_bit 8 ?X = take_bit 8 b"
    by (rule bit_eqI) (auto simp: bit_simps)
  ultimately show "red (pack_rgb r g b) = r" "green (pack_rgb r g b) = g"
    "blue (pack_rgb r g b) = b"
    unfolding pack_rgb_eq [OF assms] red_def green_def blue_def and_255 tb by simp_all
qed

lemma pack_channels:
  assumes "0 \<le> c" "c < 2 ^ 24"
  shows "pack_rgb (red c) (green c) (blue c) = c"
proof -
  have "pack_rgb (red c) (green c) (blue c) = (push_bit 16 (red c) OR push_bit 8 (green c)) OR blue c"
    using channel_range [of c] by (intro pack_rgb_eq) simp_all
  also have "\<dots> = take_bit 24 c" by (rule channels_join)
  also have "\<dots> = c" using assms by (simp add: take_bit_int_eq_self)
  finally show ?thesis .
qed

lemma round_between:
  assumes "0 \<le> a \<and> a < 256" "0 \<le> b \<and> b < 256" "0 \<le> t" "t \<le> 1"
  shows "0 \<le> Math_round (real_of_int a + real_of_int (b - a) * t)"
    "Math_round (real_of_int a + real_of_int (b - a) * t) < 256"
proof -
  let ?v = "real_of_int a + real_of_int (b - a) * t"
  have v: "?v = (1 - t) * real_of_int a + t * real_of_int b" by (simp add: algebra_simps)
  have "0 \<le> (1 - t) * real_of_int a" "0 \<le> t * real_of_int b" using assms by simp_all
  then have lo: "0 \<le> ?v" unfolding v by linarith
  have ab: "real_of_int a \<le> 255" "real_of_int b \<le> 255" using assms by simp_all
  have "(1 - t) * real_of_int a \<le> (1 - t) * 255"
    by (rule mult_left_mono [OF ab(1)]) (use assms in simp)
  moreover have "t * real_of_int b \<le> t * 255"
    by (rule mult_left_mono [OF ab(2)]) (use assms in simp)
  ultimately have hi: "?v \<le> 255" unfolding v by (simp add: algebra_simps)
  show "0 \<le> Math_round ?v" unfolding Math_round_def using lo by simp
  have "?v + 1 / 2 < 256" using hi by simp
  then show "Math_round ?v < 256" unfolding Math_round_def by (simp add: floor_less_iff)
qed

text \<open>
  Claim C9. For colours \<open>c1\<close> and \<open>c2\<close> of 24 bits, \<open>lerpColor c1 c2\<close> is \<open>c2\<close> at ratio 1
  and \<open>c1\<close> at ratio 0. At a ratio between 0 and 1 the red, green and blue channel of the
  result are each the rounded linear interpolation of the same channel of \<open>c1\<close> and \<open>c2\<close>:
  a channel depends on no other channel, and red, green and blue keep their places
  whichever colour comes first.
\<close>

theorem lerpColor_endpoints:
  assumes "0 \<le> c1" and "c1 < 2 ^ 24" and "0 \<le> c2" and "c2 < 2 ^ 24"
  shows "lerpColor c1 c2 1 = c2 \<and> lerpColor c1 c2 0 = c1
    \<and> (0 \<le> t \<and> t \<le> 1 \<longrightarrow>
         red (lerpColor c1 c2 t)
           = Math_round (real_of_int (red c1) + real_of_int (red c2 - red c1) * t)
       \<and> green (lerpColor c1 c2 t)
           = Math_round (real_of_int (green c1) + real_of_int (green c2 - green c1) * t)
       \<and> blue (lerpColor c1 c2 t)
           = Math_round (real_of_int (blue c1) + real_of_int (blue c2 - blue c1) * t))"
proof (intro conjI impI)
  show "lerpColor c1 c2 1 = c2"
    using pack_channels [OF assms(3,4)] by (simp add: lerpColor_def Let_def Math_round_def)
  show "lerpColor c1 c2 0 = c1"
    using pack_channels [OF assms(1,2)] by (simp add: lerpColor_def Let_def Math_round_def)
next
  assume t: "0 \<le> t \<and> t \<le> 1"
  let ?r = "Math_round (real_of_int (red c1) + real_of_int (red c2 - red c1) * t)"
  let ?g = "Math_round (real_of_int (green c1) + real_of_int (green c2 - green c1) * t)"
  let ?b = "Math_round (real_of_int (blue c1) + real_of_int (blue c2 - blue c1) * t)"
  have r: "0 \<le> ?r" "?r < 256"
    using round_between [OF channel_range(1) channel_range(1), of t c1 c2] t by simp_all
  have g: "0 \<le> ?g" "?g < 256"
    using round_between [OF channel_range(2) channel_range(2), of t c1 c2] t by simp_all
  have b: "0 \<le> ?b" "?b < 256"
    using round_between [OF channel_range(3) channel_range(3), of t c1 c2] t by simp_all
  have l: "lerpColor c1 c2 t = pack_rgb ?r ?g ?b" by (simp add: lerpColor_def Let_def)
  show "red (lerpColor c1 c2 t) = ?r"
    unfolding l using r g b by (rule channels_of_pack(1))
  show "green (lerpColor c1 c2 t) = ?g"
    unfolding l using r g b by (rule channels_of_pack(2))
  show "blue (lerpColor c1 c2 t) = ?b"
    unfolding l using r g b by (rule channels_of_pack(3))
qed

theorem lerpColor_endpoints_witness:
  "lerpColor 0xff0000 0xff6600 1 = 0xff6600 \<and> lerpColor 0xff0000 0xff6600 0 = 0xff0000
   \<and> red (lerpColor 0xff0000 0xff6600 (1 / 2)) = 255
   \<and> green (lerpColor 0xff0000 0xff6600 (1 / 2)) = 51
   \<and> blue (lerpColor 0xff0000 0xff6600 (1 / 2)) = 0"
proof -
  have h: "(0::int) \<le> 0xff0000" "(0xff0000::int) < 2 ^ 24" "(0::int) \<le> 0xff6600"
    "(0xff6600::int) < 2 ^ 24"
    by simp_all
  have c: "red 0xff0000 = 255" "green 0xff0000 = 0" "blue 0xff0000 = 0"
    "red 0xff6600 = 255" "green 0xff6600 = 102" "blue 0xff6600 = 0"
    by (simp_all add: red_def green_def blue_def)
  show ?thesis
    using lerpColor_endpoints [OF h, of "1 / 2"] by (simp add: c Math_round_def)
qed

section \<open>House catalogue\<close>






section \<open>Layer order\<close>




section \<open>Hover callbacks\<close>

text \<open>
  Claim C6 says that the hover callbacks receive an object of shape \<open>{ card, size }\<close> with
  the surface's card and its resolved size. On the example surface, whose size is large,
  entering calls \<open>onMouseOver\<close> with \<open>{ image: card, size: 'normal' }\<close>, which has no key
  \<open>card\<close> and not the size of the surface, and leaving calls \<open>onMouseOut\<close> with no
  argument at all.
\<close>

theorem hover_argument_counterexample:
  "size example_props = Some ''large''
   \<and> snd (handleMouseEnter example_props example_hover)
       = [CallMouseOver [(''image'', VCard example_card), (''size'', VString ''normal'')]]
   \<and> snd (handleMouseEnter example_props example_hover)
       \<noteq> [CallMouseOver [(''card'', VCard example_card), (''size'', VString ''large'')]]
   \<and> snd (handleMouseLeave example_props example_hover) = [CallMouseOut []]"
  by (simp add: handleMouseEnter_def handleMouseLeave_def example_props_def card_value_def)

text \<open>
  Claim C6, amended. When the host passed the callbacks, a pointer enter calls
  \<open>onMouseOver\<close> once with an object of the two keys \<open>image\<close> and \<open>size\<close>, where \<open>image\<close> is
  the surface's card record and \<open>size\<close> is the string \<open>normal\<close> whatever the size of the
  surface, and a pointer leave calls \<open>onMouseOut\<close> once without argument. A pointer move
  calls nothing. Besides, enter sets the hover flag, leave clears it and centres the
  pointer position, and move changes at most the pointer position.
\<close>

theorem hover_callbacks:
  assumes "onMouseOver P" and "onMouseOut P"
  shows "(\<exists>arg. snd (handleMouseEnter P st) = [CallMouseOver arg]
            \<and> map fst arg = [''image'', ''size'']
            \<and> map_of arg ''image'' = Some (card_value P)
            \<and> map_of arg ''size'' = Some (VString ''normal''))
       \<and> snd (handleMouseLeave P st) = [CallMouseOut []]
       \<and> snd (handleMouseMove rect client st) = []
       \<and> fst (handleMouseEnter P st) = st\<lparr>isHovered := True\<rparr>
       \<and> fst (handleMouseLeave P st) = st\<lparr>isHovered := False, mousePos := (0.5, 0.5)\<rparr>
       \<and> isHovered (fst (handleMouseMove rect client st)) = isHovered st"
  using assms
  by (auto simp: handleMouseEnter_def handleMouseLeave_def handleMouseMove_def
      split: option.splits)

theorem hover_callbacks_witness:
  "onMouseOver example_props \<and> onMouseOut example_props
   \<and> snd (handleMouseEnter example_props example_hover)
       = [CallMouseOver [(''image'', VCard example_card), (''size'', VString ''normal'')]]
   \<and> snd (handleMouseLeave example_props example_hover) = [CallMouseOut []]
   \<and> snd (handleMouseMove (Some (0, 0, 91, 127)) (30, 40) example_hover) = []"
proof -
  have h: "onMouseOver example_props" "onMouseOut example_props"
    by (simp_all add: example_props_def)
  have c: "card_value example_props = VCard example_card"
    by (simp add: card_value_def example_props_def)
  note hc = hover_callbacks [OF h, of example_hover "Some (0, 0, 91, 127)" "(30, 40)"]
  from hc [THEN conjunct1]
  obtain arg where a: "snd (handleMouseEnter example_props example_hover) = [CallMouseOver arg]"
    "map fst arg = [''image'', ''size'']" "map_of arg ''image'' = Some (card_value example_props)"
    "map_of arg ''size'' = Some (VString ''normal'')"
    by (elim exE conjE)
  from a(2) obtain v w where arg: "arg = [(''image'', v), (''size'', w)]"
    by (auto simp: map_eq_Cons_conv)
  with a(3,4) c have "arg = [(''image'', VCard example_card), (''size'', VString ''normal'')]"
    by simp
  with a(1) h hc show ?thesis by simp
qed

section \<open>Token overlay\<close>




section \<open>Size fallback\<close>



end
